theory Spec2Isabelle
  imports Complex_Main
begin

section \<open>Layer transform actions\<close>

text \<open>
  The transform module is the second module of \<^verbatim>\<open>src/js/jsx/shared/Carousel.jsx\<close>, after
  the carousel component. It computes layer geometry, dispatches local state-update events and
  issues play objects to the native command gateway. An object key that may be absent
  (\<open>hasOwnProperty\<close>) is an \<^typ>\<open>'a option\<close>; an Immutable list is a HOL list.
\<close>

subsection \<open>Numbers\<close>

text \<open>
  JavaScript numbers are IEEE-754 doubles: every operation rounds, and there are
  infinities, a signed zero and NaN. The module's functions therefore take the number type
  \<open>'n\<close> and the operations they apply to it as a parameter: \<open>+\<close>, \<open>-\<close>, \<open>/\<close>, \<open><\<close>,
  \<open>Math.abs\<close>, \<open>Math.min\<close>, \<open>Math.max\<close>, the truthiness test behind \<open>||\<close> and the value
  of an integer literal. No property of these operations is assumed, so what is proved
  holds for the doubles of the host, whatever they round to.
\<close>

record 'n arith =
  n_add :: "'n \<Rightarrow> 'n \<Rightarrow> 'n"
  n_sub :: "'n \<Rightarrow> 'n \<Rightarrow> 'n"
  n_div :: "'n \<Rightarrow> 'n \<Rightarrow> 'n"
  n_less :: "'n \<Rightarrow> 'n \<Rightarrow> bool"
  n_abs :: "'n \<Rightarrow> 'n"
  n_min :: "'n \<Rightarrow> 'n \<Rightarrow> 'n"
  n_max :: "'n \<Rightarrow> 'n \<Rightarrow> 'n"
  n_truthy :: "'n \<Rightarrow> bool"
  n_lit :: "int \<Rightarrow> 'n"

subsection \<open>Data model\<close>

text \<open>
  The models (Bounds, Layer, Document, LayerStructure) are declared outside this module;
  only the fields the module reads are kept. The store queries \<open>childBounds\<close>,
  \<open>descendants\<close> and \<open>selected\<close> of \<open>document.layers\<close> are fields of the document
  snapshot the command receives; \<open>childBounds\<close> is taken to return a bounds object
  for every layer it is asked about. Field names carry a short prefix because \<open>id\<close>,
  \<open>top\<close> and others are HOL constants.
\<close>

record 'n bounds =
  b_left :: 'n
  b_top :: 'n
  b_right :: 'n
  b_bottom :: 'n
  b_width :: 'n
  b_height :: 'n

datatype layerKinds = GROUP | GROUPEND | OTHERKIND nat

record layer =
  l_id :: nat
  l_kind :: layerKinds
  l_isBackground :: bool

record 'n document =
  d_id :: nat
  d_bounds :: "'n bounds"
  d_childBounds :: "layer \<Rightarrow> 'n bounds"
  d_descendants :: "layer \<Rightarrow> layer list"
  d_selected :: "layer list"
  d_selectedLocked :: bool

text \<open>\<open>{x: number, y: number}\<close> and \<open>{w: number, h: number}\<close>, each key optional.\<close>

record 'n position =
  p_x :: "'n option"
  p_y :: "'n option"

record 'n size =
  s_w :: "'n option"
  s_h :: "'n option"

subsection \<open>Swap-location heuristic\<close>

text \<open>
  \<open>_calculateSwapLocations(document, layers, sensitivity)\<close>. The first line,
  \<open>sensitivity = sensitivity || 10\<close>, replaces an absent or falsy sensitivity by 10. The
  function reads \<open>layers.get(0)\<close> and \<open>layers.get(1)\<close>; with fewer than two layers the
  source hands \<open>undefined\<close> to the store query, which is outside this module: the model
  returns \<open>None\<close> there.
\<close>

fun calculateSwapLocations ::
  "'n arith \<Rightarrow> 'n document \<Rightarrow> layer list \<Rightarrow> 'n option \<Rightarrow> 'n position list option" where
  "calculateSwapLocations ar document (layer0 # layer1 # rest) sensitivity0 =
     (let sensitivity = (case sensitivity0 of
                           None \<Rightarrow> n_lit ar 10
                         | Some s \<Rightarrow> if n_truthy ar s then s else n_lit ar 10);
          l1 = d_childBounds document layer0;
          l2 = d_childBounds document layer1;
          boundingBoxLeft = n_min ar (b_left l1) (b_left l2);
          boundingBoxRight = n_max ar (b_right l1) (b_right l2);
          boundingBoxTop = n_min ar (b_top l1) (b_top l2);
          boundingBoxBottom = n_max ar (b_bottom l1) (b_bottom l2);
          l1VertCenter = n_add ar (b_top l1) (n_div ar (b_height l1) (n_lit ar 2));
          l2VertCenter = n_add ar (b_top l2) (n_div ar (b_height l2) (n_lit ar 2));
          l1HorzCenter = n_add ar (b_left l1) (n_div ar (b_width l1) (n_lit ar 2));
          l2HorzCenter = n_add ar (b_left l2) (n_div ar (b_width l2) (n_lit ar 2));
          heightFraction = n_div ar (n_sub ar boundingBoxBottom boundingBoxTop) sensitivity;
          widthFraction = n_div ar (n_sub ar boundingBoxRight boundingBoxLeft) sensitivity;
          verticalEdgeClose =
            (n_less ar (n_abs ar (n_sub ar (b_left l1) (b_left l2))) widthFraction \<or>
             n_less ar (n_abs ar (n_sub ar (b_right l1) (b_right l2))) widthFraction \<or>
             n_less ar (n_abs ar (n_sub ar l1HorzCenter l2HorzCenter)) widthFraction);
          horizontalEdgeClose =
            (n_less ar (n_abs ar (n_sub ar (b_top l1) (b_top l2))) heightFraction \<or>
             n_less ar (n_abs ar (n_sub ar (b_bottom l1) (b_bottom l2))) heightFraction \<or>
             n_less ar (n_abs ar (n_sub ar l1VertCenter l2VertCenter)) heightFraction)
      in Some
        (if verticalEdgeClose then
           [\<lparr>p_x = Some (b_left l1), p_y = Some (b_top l2)\<rparr>,
            \<lparr>p_x = Some (b_left l2), p_y = Some (b_top l1)\<rparr>]
         else if horizontalEdgeClose then
           [\<lparr>p_x = Some (n_sub ar (n_add ar boundingBoxLeft boundingBoxRight) (b_right l1)),
              p_y = Some (b_top l1)\<rparr>,
            \<lparr>p_x = Some (n_sub ar (n_add ar boundingBoxLeft boundingBoxRight) (b_right l2)),
              p_y = Some (b_top l2)\<rparr>]
         else
           [\<lparr>p_x = Some (b_left l2), p_y = Some (b_top l2)\<rparr>,
            \<lparr>p_x = Some (b_left l1), p_y = Some (b_top l1)\<rparr>]))"
| "calculateSwapLocations ar document layers sensitivity0 = None"

subsection \<open>Play objects, events and effects\<close>

text \<open>
  The adapter libraries (\<open>documentLib\<close>, \<open>layerLib\<close>, \<open>contentLib\<close>, \<open>unitLib\<close>) and
  lodash's \<open>merge\<close> build serialisable descriptions and are external to this module: each
  builder is a constructor that records its arguments.
\<close>

datatype reference = DocumentId nat | LayerId nat | LayerCurrent

datatype 'n unit_value = Pixels 'n

datatype 'n play_object =
    Translate "reference list" "'n unit_value" "'n unit_value"
  | SetSizeObj "reference list" "'n unit_value" "'n unit_value"
  | Merge "'n play_object" "'n play_object"
  | Select "reference list"
  | Flip reference string
  | Rotate "reference list" 'n
  | DocumentResize "'n unit_value" "'n unit_value"
  | SetRadius 'n

record historyStateInfo =
  h_name :: string
  h_target :: reference

text \<open>\<open>descriptor.playObject\<close> and \<open>descriptor.batchPlayObjects\<close>: one gateway call each.\<close>

datatype 'n native_call =
    PlayObject "'n play_object"
  | BatchPlayObjects "'n play_object list" "historyStateInfo option"

record 'n radii =
  topLeft :: 'n
  topRight :: 'n
  bottomRight :: 'n
  bottomLeft :: 'n

text \<open>Event name with its payload \<open>{documentID, layerIDs, ...}\<close>.\<close>

datatype 'n event =
    TRANSLATE_LAYERS nat "nat list" "'n position"
  | RESIZE_DOCUMENT nat "nat list" "'n size"
  | RESIZE_LAYERS nat "nat list" "'n size"
  | RADII_CHANGED nat "nat list" "'n radii"

text \<open>
  \<open>document.layers.descendants(layer)\<close> is an Immutable list; the flat-mapped variant is
  converted with \<open>toSet()\<close>.
\<close>

datatype layer_collection = LayerList "layer list" | LayerSet "layer set"

text \<open>\<open>this.transfer(action, args...)\<close>: the action transferred to, with its arguments.\<close>

datatype 'n transfer_call =
    ResetLayers "'n document" layer_collection
  | TransferRotate "'n document" 'n

datatype 'n effect =
    Dispatch "'n event"
  | Native "'n native_call"
  | Transfer "'n transfer_call"
  | LogError string

text \<open>
  A command either throws synchronously or returns a promise that resolves or rejects
  with a reason. The gateway and the action transferred to are external: the environment
  says, for each call, whether its promise rejects (\<open>Some reason\<close>) or resolves.
\<close>

type_synonym reason = string

datatype outcome = Throws string | Rejects reason | Resolves

record 'n env =
  gateway :: "'n native_call \<Rightarrow> reason option"
  transferred :: "'n transfer_call \<Rightarrow> reason option"
  currentDocument :: "'n document option"

text \<open>
  \<open>descriptor.playObject(obj).bind(this).then(function () { if (...) return this.transfer(...) })\<close>:
  the native call is issued; a rejection skips the callback and is the command's result;
  on success the callback runs and the transfer's promise, when there is one, is the result.
\<close>

definition playThen ::
  "'n env \<Rightarrow> 'n native_call \<Rightarrow> 'n transfer_call option \<Rightarrow> 'n effect list \<times> outcome" where
  "playThen e call callback =
     (case gateway e call of
        Some r \<Rightarrow> ([Native call], Rejects r)
      | None \<Rightarrow>
          (case callback of
             None \<Rightarrow> ([Native call], Resolves)
           | Some t \<Rightarrow>
               ([Native call, Transfer t],
                case transferred e t of Some r \<Rightarrow> Rejects r | None \<Rightarrow> Resolves)))"

subsection \<open>Commands\<close>

definition transformingAnyGroups :: "layer list \<Rightarrow> bool" where
  "transformingAnyGroups layerSpec = list_ex (\<lambda>layer. l_kind layer = GROUP) layerSpec"

definition getTranslatePlayObject ::
  "'n arith \<Rightarrow> 'n document \<Rightarrow> layer \<Rightarrow> 'n position \<Rightarrow> 'n play_object" where
  "getTranslatePlayObject ar document layer position =
     (let childBounds = d_childBounds document layer;
          documentRef = DocumentId (d_id document);
          layerRef = [documentRef, LayerId (l_id layer)];
          newX = (case p_x position of Some x \<Rightarrow> x | None \<Rightarrow> b_left childBounds);
          newY = (case p_y position of Some y \<Rightarrow> y | None \<Rightarrow> b_top childBounds);
          xDelta = Pixels (n_sub ar newX (b_left childBounds));
          yDelta = Pixels (n_sub ar newY (b_top childBounds))
      in Translate layerRef xDelta yDelta)"

text \<open>\<open>layerSpec.flatMap(document.layers.descendants, document.layers).toSet()\<close>\<close>

definition descendantsSet :: "'n document \<Rightarrow> layer list \<Rightarrow> layer_collection" where
  "descendantsSet document layerSpec = LayerSet (set (concat (map (d_descendants document) layerSpec)))"

definition notGroupEnd :: "layer list \<Rightarrow> layer list" where
  "notGroupEnd layerSpec = filter (\<lambda>layer. \<not> (l_kind layer = GROUPEND)) layerSpec"

definition setPositionCommand ::
  "'n arith \<Rightarrow> 'n env \<Rightarrow> 'n document \<Rightarrow> layer list \<Rightarrow> 'n position \<Rightarrow> 'n effect list \<times> outcome" where
  "setPositionCommand ar e document layerSpec0 position =
     (let layerSpec = notGroupEnd layerSpec0;
          layerIDs = map l_id layerSpec;
          dispatched = Dispatch (TRANSLATE_LAYERS (d_id document) layerIDs position)
      in case layerSpec of
           [layer] \<Rightarrow>
             (let translateObj = getTranslatePlayObject ar document layer position;
                  (effs, out) = playThen e (PlayObject translateObj)
                    (if transformingAnyGroups layerSpec
                     then Some (ResetLayers document (LayerList (d_descendants document layer)))
                     else None)
              in (dispatched # effs, out))
         | _ \<Rightarrow>
             (let documentRef = DocumentId (d_id document);
                  playObjects = concat (map (\<lambda>layer.
                      [Select [documentRef, LayerId (l_id layer)],
                       getTranslatePlayObject ar document layer position]) layerSpec);
                  allLayerRefs = documentRef # map (\<lambda>layer. LayerId (l_id layer)) layerSpec;
                  selectAllObj = Select allLayerRefs;
                  (effs, out) = playThen e (BatchPlayObjects (playObjects @ [selectAllObj]) None)
                    (if transformingAnyGroups layerSpec
                     then Some (ResetLayers document (descendantsSet document layerSpec))
                     else None)
              in (dispatched # effs, out)))"

text \<open>
  \<open>swapLayersCommand\<close> calls \<open>_calculateSwapLocations(document, layers)\<close> with no
  sensitivity. The size check comes first, so the two positions always exist; the
  \<open>None\<close> branch below is never taken.
\<close>

definition swapLayersCommand ::
  "'n arith \<Rightarrow> 'n env \<Rightarrow> 'n document \<Rightarrow> layer list \<Rightarrow> 'n effect list \<times> outcome" where
  "swapLayersCommand ar e document layers =
     (if length layers \<noteq> 2 then ([], Throws ''Expected two layers'')
      else if list_all (\<lambda>layer. l_kind layer = GROUPEND) layers then ([], Resolves)
      else
        (case calculateSwapLocations ar document layers None of
           None \<Rightarrow> ([], Throws ''TypeError'')
         | Some newPositions \<Rightarrow>
             (let documentRef = DocumentId (d_id document);
                  translateObjects =
                    [getTranslatePlayObject ar document (layers ! 0) (newPositions ! 0),
                     getTranslatePlayObject ar document (layers ! 1) (newPositions ! 1)];
                  payloadOne = TRANSLATE_LAYERS (d_id document) [l_id (layers ! 0)] (newPositions ! 0);
                  payloadTwo = TRANSLATE_LAYERS (d_id document) [l_id (layers ! 1)] (newPositions ! 1);
                  playObjects = concat (map (\<lambda>(layer, index).
                      [Select [documentRef, LayerId (l_id layer)], translateObjects ! index])
                    (zip layers [0 ..< length layers]));
                  layerRef = documentRef # map (\<lambda>layer. LayerId (l_id layer)) layers;
                  batchOptions = \<lparr>h_name = ''swap-layers'', h_target = documentRef\<rparr>;
                  (effs, out) = playThen e
                    (BatchPlayObjects (playObjects @ [Select layerRef]) (Some batchOptions))
                    (if transformingAnyGroups layers
                     then Some (ResetLayers document (descendantsSet document layers))
                     else None)
              in (Dispatch payloadOne # Dispatch payloadTwo # effs, out))))"

definition setBoundsCommand ::
  "'n arith \<Rightarrow> 'n env \<Rightarrow> 'n document \<Rightarrow> 'n bounds \<Rightarrow> 'n bounds \<Rightarrow> 'n effect list \<times> outcome" where
  "setBoundsCommand ar e document oldBounds newBounds =
     (let documentRef = DocumentId (d_id document);
          widthDiff = n_sub ar (b_width newBounds) (b_width oldBounds);
          heightDiff = n_sub ar (b_height newBounds) (b_height oldBounds);
          xDelta = Pixels (n_add ar (n_sub ar (b_left newBounds) (b_left oldBounds))
                             (n_div ar widthDiff (n_lit ar 2)));
          yDelta = Pixels (n_add ar (n_sub ar (b_top newBounds) (b_top oldBounds))
                             (n_div ar heightDiff (n_lit ar 2)));
          pixelWidth = Pixels (b_width newBounds);
          pixelHeight = Pixels (b_height newBounds);
          layerRef = [documentRef, LayerCurrent];
          translateObj = Translate layerRef xDelta yDelta;
          resizeObj = SetSizeObj layerRef pixelWidth pixelHeight;
          resizeAndMoveObj = Merge translateObj resizeObj
      in playThen e (PlayObject resizeAndMoveObj)
           (Some (ResetLayers document (descendantsSet document (d_selected document)))))"

definition getResizePlayObject ::
  "'n arith \<Rightarrow> 'n document \<Rightarrow> layer \<Rightarrow> 'n size \<Rightarrow> 'n play_object" where
  "getResizePlayObject ar document layer sz =
     (let childBounds = d_childBounds document layer;
          documentRef = DocumentId (d_id document);
          newWidth = (case s_w sz of Some w \<Rightarrow> w | None \<Rightarrow> b_width childBounds);
          newHeight = (case s_h sz of Some h \<Rightarrow> h | None \<Rightarrow> b_height childBounds);
          widthDiff = n_sub ar newWidth (b_width childBounds);
          heightDiff = n_sub ar newHeight (b_height childBounds);
          pixelWidth = Pixels newWidth;
          pixelHeight = Pixels newHeight;
          xDelta = Pixels (n_div ar widthDiff (n_lit ar 2));
          yDelta = Pixels (n_div ar heightDiff (n_lit ar 2));
          layerRef = [documentRef, LayerId (l_id layer)];
          translateObj = Translate layerRef xDelta yDelta;
          resizeObj = SetSizeObj layerRef pixelWidth pixelHeight
      in Merge translateObj resizeObj)"

definition setSizeCommand ::
  "'n arith \<Rightarrow> 'n env \<Rightarrow> 'n document \<Rightarrow> layer list \<Rightarrow> 'n size \<Rightarrow> 'n effect list \<times> outcome" where
  "setSizeCommand ar e document layerSpec0 sz =
     (let layerSpec = notGroupEnd layerSpec0;
          layerIDs = map l_id layerSpec
      in case layerSpec of
           [] \<Rightarrow>
             (let newWidth = (case s_w sz of Some w \<Rightarrow> w | None \<Rightarrow> b_width (d_bounds document));
                  unitsWidth = Pixels newWidth;
                  newHeight = (case s_h sz of Some h \<Rightarrow> h | None \<Rightarrow> b_height (d_bounds document));
                  unitsHeight = Pixels newHeight;
                  resizeObj = DocumentResize unitsWidth unitsHeight;
                  (effs, out) = playThen e (PlayObject resizeObj) None
              in (Dispatch (RESIZE_DOCUMENT (d_id document) layerIDs sz) # effs, out))
         | [layer] \<Rightarrow>
             (let resizeAndMoveObj = getResizePlayObject ar document layer sz;
                  (effs, out) = playThen e (PlayObject resizeAndMoveObj)
                    (if transformingAnyGroups layerSpec
                     then Some (ResetLayers document (LayerList (d_descendants document layer)))
                     else None)
              in (Dispatch (RESIZE_LAYERS (d_id document) layerIDs sz) # effs, out))
         | _ \<Rightarrow>
             (let documentRef = DocumentId (d_id document);
                  playObjects = concat (map (\<lambda>layer.
                      [Select [documentRef, LayerId (l_id layer)],
                       getResizePlayObject ar document layer sz]) layerSpec);
                  allLayerRefs = documentRef # map (\<lambda>layer. LayerId (l_id layer)) layerSpec;
                  selectAllObj = Select allLayerRefs;
                  (effs, out) = playThen e (BatchPlayObjects (playObjects @ [selectAllObj]) None)
                    (if transformingAnyGroups layerSpec
                     then Some (ResetLayers document (descendantsSet document layerSpec))
                     else None)
              in (Dispatch (RESIZE_LAYERS (d_id document) layerIDs sz) # effs, out)))"

text \<open>The dispatch of \<open>FLIP_LAYERS\<close> is commented out in the source: flip dispatches nothing.\<close>

definition flipCommand ::
  "'n env \<Rightarrow> 'n document \<Rightarrow> layer list \<Rightarrow> string \<Rightarrow> 'n effect list \<times> outcome" where
  "flipCommand e document layers axis =
     (if length layers < 1 then ([], Throws ''Expected at least one layer'')
      else case find (\<lambda>l. \<not> l_isBackground l) layers of
             None \<Rightarrow> ([], Throws ''flip was not provided a valid non-background layer'')
           | Some repLayer \<Rightarrow>
               playThen e (PlayObject (Flip (LayerId (l_id repLayer)) axis))
                 (Some (ResetLayers document (descendantsSet document layers))))"

definition flipXCommand :: "'n env \<Rightarrow> 'n document \<Rightarrow> layer list \<Rightarrow> 'n effect list \<times> outcome" where
  "flipXCommand e document layers = flipCommand e document layers ''horizontal''"

definition flipYCommand :: "'n env \<Rightarrow> 'n document \<Rightarrow> layer list \<Rightarrow> 'n effect list \<times> outcome" where
  "flipYCommand e document layers = flipCommand e document layers ''vertical''"

definition setRadiusCommand ::
  "'n env \<Rightarrow> 'n document \<Rightarrow> layer list \<Rightarrow> 'n \<Rightarrow> 'n effect list \<times> outcome" where
  "setRadiusCommand e document layers radius =
     (let radiusDescriptor = SetRadius radius;
          (effs, out) = playThen e (PlayObject radiusDescriptor) None
      in (Dispatch (RADII_CHANGED (d_id document) (map l_id layers)
            \<lparr>topLeft = radius, topRight = radius, bottomRight = radius, bottomLeft = radius\<rparr>)
          # effs, out))"

definition rotateCommand :: "'n env \<Rightarrow> 'n document \<Rightarrow> 'n \<Rightarrow> 'n effect list \<times> outcome" where
  "rotateCommand e document angle =
     (let documentRef = DocumentId (d_id document);
          layerRef = [documentRef, LayerCurrent];
          rotateObj = Rotate layerRef angle
      in playThen e (PlayObject rotateObj)
           (Some (ResetLayers document (descendantsSet document (d_selected document)))))"

text \<open>The menu payload \<open>{angle: number}\<close>, whose key may be missing.\<close>

record 'n payload =
  pl_angle :: "'n option"

definition rotateLayersInCurrentDocumentCommand :: "'n env \<Rightarrow> 'n payload \<Rightarrow> 'n effect list \<times> outcome" where
  "rotateLayersInCurrentDocumentCommand e pl =
     (case pl_angle pl of
        None \<Rightarrow> ([LogError ''Missing angle''], Resolves)
      | Some a \<Rightarrow>
          (case currentDocument e of
             None \<Rightarrow> ([], Resolves)
           | Some currentDoc \<Rightarrow>
               if d_selectedLocked currentDoc then ([], Resolves)
               else ([Transfer (TransferRotate currentDoc a)],
                     case transferred e (TransferRotate currentDoc a) of
                       Some r \<Rightarrow> Rejects r | None \<Rightarrow> Resolves)))"

subsection \<open>Actions and their lock declarations\<close>

datatype lock = PS_DOC | JS_DOC | JS_APP

datatype command =
    SetPositionCommand | SetSizeCommand | SetBoundsCommand | FlipXCommand | FlipYCommand
  | FlipXCurrentDocumentCommand | FlipYCurrentDocumentCommand | SwapLayersCommand
  | SwapLayersCurrentDocumentCommand | SetRadiusCommand | RotateCommand
  | RotateLayersInCurrentDocumentCommand

record action =
  command :: command
  reads :: "lock list"
  writes :: "lock list"

definition setPosition :: action where
  "setPosition = \<lparr>command = SetPositionCommand, reads = [PS_DOC, JS_DOC], writes = [PS_DOC, JS_DOC]\<rparr>"

definition setSize :: action where
  "setSize = \<lparr>command = SetSizeCommand, reads = [PS_DOC, JS_DOC], writes = [PS_DOC, JS_DOC]\<rparr>"

definition setBounds :: action where
  "setBounds = \<lparr>command = SetBoundsCommand, reads = [PS_DOC, JS_DOC], writes = [PS_DOC, JS_DOC]\<rparr>"

definition flipX :: action where
  "flipX = \<lparr>command = FlipXCommand, reads = [PS_DOC, JS_DOC], writes = [PS_DOC, JS_DOC]\<rparr>"

definition flipY :: action where
  "flipY = \<lparr>command = FlipYCommand, reads = [PS_DOC, JS_DOC], writes = [PS_DOC, JS_DOC]\<rparr>"

definition flipXCurrentDocument :: action where
  "flipXCurrentDocument = \<lparr>command = FlipXCurrentDocumentCommand,
     reads = [PS_DOC, JS_DOC, JS_APP], writes = [PS_DOC, JS_DOC]\<rparr>"

definition flipYCurrentDocument :: action where
  "flipYCurrentDocument = \<lparr>command = FlipYCurrentDocumentCommand,
     reads = [PS_DOC, JS_DOC, JS_APP], writes = [PS_DOC, JS_DOC]\<rparr>"

definition swapLayers :: action where
  "swapLayers = \<lparr>command = SwapLayersCommand, reads = [PS_DOC, JS_DOC], writes = [PS_DOC, JS_DOC]\<rparr>"

definition swapLayersCurrentDocument :: action where
  "swapLayersCurrentDocument = \<lparr>command = SwapLayersCurrentDocumentCommand,
     reads = [PS_DOC, JS_DOC, JS_APP], writes = [PS_DOC, JS_DOC]\<rparr>"

definition setRadius :: action where
  "setRadius = \<lparr>command = SetRadiusCommand, reads = [PS_DOC, JS_DOC], writes = [PS_DOC, JS_DOC]\<rparr>"

definition rotate_action :: action where
  "rotate_action = \<lparr>command = RotateCommand, reads = [PS_DOC, JS_DOC], writes = [PS_DOC, JS_DOC]\<rparr>"

definition rotateLayersInCurrentDocument :: action where
  "rotateLayersInCurrentDocument = \<lparr>command = RotateLayersInCurrentDocumentCommand,
     reads = [PS_DOC, JS_DOC, JS_APP], writes = [PS_DOC, JS_DOC]\<rparr>"

text \<open>The module's exports, in the order of the source.\<close>

definition exports :: "action list" where
  "exports = [setPosition, setSize, flipX, flipY, flipXCurrentDocument, flipYCurrentDocument,
     swapLayers, swapLayersCurrentDocument, setRadius, setBounds, rotate_action,
     rotateLayersInCurrentDocument]"

subsection \<open>Invocations and effect traces\<close>

text \<open>
  One invocation of a command that issues native calls itself, with its arguments. The
  \<open>*CurrentDocument\<close> commands issue none: they read the application store and transfer.
\<close>

datatype 'n invocation =
    InvokeSetPosition "'n document" "layer list" "'n position"
  | InvokeSetSize "'n document" "layer list" "'n size"
  | InvokeSetBounds "'n document" "'n bounds" "'n bounds"
  | InvokeFlipX "'n document" "layer list"
  | InvokeFlipY "'n document" "layer list"
  | InvokeSwapLayers "'n document" "layer list"
  | InvokeSetRadius "'n document" "layer list" 'n
  | InvokeRotate "'n document" 'n

fun invoke :: "'n arith \<Rightarrow> 'n env \<Rightarrow> 'n invocation \<Rightarrow> 'n effect list \<times> outcome" where
  "invoke ar e (InvokeSetPosition document layerSpec position) =
     setPositionCommand ar e document layerSpec position"
| "invoke ar e (InvokeSetSize document layerSpec sz) = setSizeCommand ar e document layerSpec sz"
| "invoke ar e (InvokeSetBounds document oldBounds newBounds) =
     setBoundsCommand ar e document oldBounds newBounds"
| "invoke ar e (InvokeFlipX document layers) = flipXCommand e document layers"
| "invoke ar e (InvokeFlipY document layers) = flipYCommand e document layers"
| "invoke ar e (InvokeSwapLayers document layers) = swapLayersCommand ar e document layers"
| "invoke ar e (InvokeSetRadius document layers radius) = setRadiusCommand e document layers radius"
| "invoke ar e (InvokeRotate document angle) = rotateCommand e document angle"

text \<open>The commands whose body contains a \<open>this.dispatch\<close>.\<close>

fun dispatchesEvent :: "'n invocation \<Rightarrow> bool" where
  "dispatchesEvent (InvokeSetPosition document layerSpec position) = True"
| "dispatchesEvent (InvokeSetSize document layerSpec sz) = True"
| "dispatchesEvent (InvokeSwapLayers document layers) = True"
| "dispatchesEvent (InvokeSetRadius document layers radius) = True"
| "dispatchesEvent (InvokeSetBounds document oldBounds newBounds) = False"
| "dispatchesEvent (InvokeFlipX document layers) = False"
| "dispatchesEvent (InvokeFlipY document layers) = False"
| "dispatchesEvent (InvokeRotate document angle) = False"

fun isDispatch :: "'n effect \<Rightarrow> bool" where
  "isDispatch (Dispatch ev) = True"
| "isDispatch other = False"

fun nativeCalls :: "'n effect list \<Rightarrow> 'n native_call list" where
  "nativeCalls [] = []"
| "nativeCalls (Native call # effs) = call # nativeCalls effs"
| "nativeCalls (other # effs) = nativeCalls effs"

subsection \<open>Round-to-nearest arithmetic on finite doubles\<close>

text \<open>
  For concrete inputs: the finite doubles as the reals they denote, every operation
  rounded to the nearest double, ties to the even mantissa. A positive real is scaled by
  powers of two to a mantissa in \<open>[2^52, 2^53)\<close>, or to the smallest exponent \<open>-1074\<close>
  for a subnormal; the mantissa is rounded to an integer and scaled back. Results beyond the largest finite
  double, the infinities, NaN and the sign of zero are outside this instance; the
  theorems do not depend on it.
\<close>

definition roundHalfEven :: "real \<Rightarrow> int" where
  "roundHalfEven m =
     (let f = \<lfloor>m\<rfloor>; d = m - of_int f
      in if d < 1 / 2 then f else if 1 / 2 < d then f + 1 else if even f then f else f + 1)"

definition pow2 :: "int \<Rightarrow> real" where
  "pow2 e = (if 0 \<le> e then 2 ^ nat e else 1 / 2 ^ nat (- e))"

function scaleUp :: "real \<Rightarrow> int \<Rightarrow> real" where
  "scaleUp m e =
     (if m < 2 ^ 52 \<and> - 1074 < e then scaleUp (m * 2) (e - 1)
      else of_int (roundHalfEven m) * pow2 e)"
  by pat_completeness auto
termination
  by (relation "measure (\<lambda>(m, e). nat (e + 1074))") auto

function scaleDown :: "real \<Rightarrow> int \<Rightarrow> real" where
  "scaleDown m e = (if 2 ^ 53 \<le> m then scaleDown (m / 2) (e + 1) else scaleUp m e)"
  by pat_completeness auto
termination
proof (relation "measure (\<lambda>(m, e). nat \<lfloor>m\<rfloor>)")
  show "wf (measure (\<lambda>(m, e). nat \<lfloor>m\<rfloor>))" by simp
next
  fix m :: real and e :: int
  assume big: "2 ^ 53 \<le> m"
  have "real_of_int \<lfloor>m / 2\<rfloor> \<le> m / 2" by (rule of_int_floor_le)
  moreover have "m / 2 \<le> m - 1" using big by simp
  ultimately have "real_of_int \<lfloor>m / 2\<rfloor> \<le> m - 1" by linarith
  then have "\<lfloor>m / 2\<rfloor> \<le> \<lfloor>m - 1\<rfloor>" by (simp only: le_floor_iff)
  then have smaller: "\<lfloor>m / 2\<rfloor> < \<lfloor>m\<rfloor>" by simp
  have "(1::real) \<le> m" using big by simp
  then have "1 \<le> \<lfloor>m\<rfloor>" by (simp add: le_floor_iff)
  with smaller show "((m / 2, e + 1), (m, e)) \<in> measure (\<lambda>(m, e). nat \<lfloor>m\<rfloor>)"
    by simp
qed

declare scaleUp.simps [simp del] scaleDown.simps [simp del]

definition fl :: "real \<Rightarrow> real" where
  "fl x = (if x = 0 then 0 else sgn x * scaleDown \<bar>x\<bar> 0)"

definition binary64 :: "real arith" where
  "binary64 = \<lparr>n_add = (\<lambda>a b. fl (a + b)), n_sub = (\<lambda>a b. fl (a - b)),
     n_div = (\<lambda>a b. fl (a / b)), n_less = (\<lambda>a b. a < b), n_abs = (\<lambda>a. \<bar>a\<bar>),
     n_min = (\<lambda>a b. min a b), n_max = (\<lambda>a b. max a b), n_truthy = (\<lambda>a. a \<noteq> 0),
     n_lit = (\<lambda>k. fl (of_int k))\<rparr>"

subsection \<open>Sample inputs\<close>

text \<open>
  Boxes with integer coordinates: two list items one above the other, a box to the right
  of the first, one diagonally below it, and one shifted by 30 and placed far below.
\<close>

definition boxA :: "real bounds" where
  "boxA = \<lparr>b_left = 0, b_top = 0, b_right = 100, b_bottom = 50, b_width = 100, b_height = 50\<rparr>"

definition boxB :: "real bounds" where
  "boxB = \<lparr>b_left = 0, b_top = 200, b_right = 100, b_bottom = 250, b_width = 100, b_height = 50\<rparr>"

definition boxC :: "real bounds" where
  "boxC = \<lparr>b_left = 200, b_top = 0, b_right = 300, b_bottom = 50, b_width = 100, b_height = 50\<rparr>"

definition boxD :: "real bounds" where
  "boxD = \<lparr>b_left = 200, b_top = 200, b_right = 300, b_bottom = 300, b_width = 100, b_height = 100\<rparr>"

definition boxG :: "real bounds" where
  "boxG = \<lparr>b_left = 30, b_top = 300, b_right = 130, b_bottom = 350, b_width = 100, b_height = 50\<rparr>"

text \<open>
  Boxes whose coordinates are not integers, written as the exact values of the doubles
  \<open>0.3\<close>, \<open>0.7\<close>, \<open>0.1\<close>, \<open>0.9\<close>, \<open>100.2\<close>, \<open>0.2\<close> and \<open>0.4\<close>. With \<open>boxE\<close> and
  \<open>boxF\<close> the lefts differ by the double \<open>0.3\<close> and the threshold \<open>3 / 10\<close> rounds to
  the same double; \<open>boxK\<close> and \<open>boxL\<close> are the same situation for the tops. \<open>boxH\<close> has
  left \<open>-1\<close>, for a move to \<open>x = 2^53\<close>.
\<close>

definition boxE :: "real bounds" where
  "boxE = \<lparr>b_left = 0, b_top = 0, b_right = 3, b_bottom = 1, b_width = 3, b_height = 1\<rparr>"

definition boxF :: "real bounds" where
  "boxF = \<lparr>b_left = 5404319552844595 / 18014398509481984, b_top = 100, b_right = 1,
     b_bottom = 101, b_width = 3152519739159347 / 4503599627370496, b_height = 1\<rparr>"

definition boxI :: "real bounds" where
  "boxI = \<lparr>b_left = 3602879701896397 / 36028797018963968, b_top = 0, b_right = 1,
     b_bottom = 10, b_width = 8106479329266893 / 9007199254740992, b_height = 10\<rparr>"

definition boxJ :: "real bounds" where
  "boxJ = \<lparr>b_left = 100, b_top = 0, b_right = 7050948166601933 / 70368744177664,
     b_bottom = 10, b_width = 3602879701896397 / 18014398509481984, b_height = 10\<rparr>"

definition boxK :: "real bounds" where
  "boxK = \<lparr>b_left = 0, b_top = 0, b_right = 1, b_bottom = 3, b_width = 1, b_height = 3\<rparr>"

definition boxL :: "real bounds" where
  "boxL = \<lparr>b_left = 100, b_top = 5404319552844595 / 18014398509481984, b_right = 101,
     b_bottom = 1, b_width = 1, b_height = 3152519739159347 / 4503599627370496\<rparr>"

definition boxH :: "real bounds" where
  "boxH = \<lparr>b_left = - 1, b_top = 0, b_right = 9, b_bottom = 10, b_width = 10, b_height = 10\<rparr>"

definition boxOld :: "real bounds" where
  "boxOld = \<lparr>b_left = 0, b_top = 0, b_right = 0, b_bottom = 0, b_width = 0, b_height = 0\<rparr>"

definition boxNew :: "real bounds" where
  "boxNew = \<lparr>b_left = 3602879701896397 / 36028797018963968, b_top = 0,
     b_right = 1 / 2, b_bottom = 0, b_width = 3602879701896397 / 9007199254740992,
     b_height = 0\<rparr>"

definition layerA :: layer where
  "layerA = \<lparr>l_id = 1, l_kind = OTHERKIND 1, l_isBackground = False\<rparr>"

definition layerB :: layer where
  "layerB = \<lparr>l_id = 2, l_kind = OTHERKIND 1, l_isBackground = False\<rparr>"

definition layerC :: layer where
  "layerC = \<lparr>l_id = 3, l_kind = OTHERKIND 1, l_isBackground = False\<rparr>"

definition layerD :: layer where
  "layerD = \<lparr>l_id = 4, l_kind = GROUP, l_isBackground = False\<rparr>"

definition groupEnd :: layer where
  "groupEnd = \<lparr>l_id = 5, l_kind = GROUPEND, l_isBackground = False\<rparr>"

definition backgroundLayer :: layer where
  "backgroundLayer = \<lparr>l_id = 6, l_kind = OTHERKIND 12, l_isBackground = True\<rparr>"

definition layerE :: layer where
  "layerE = \<lparr>l_id = 11, l_kind = OTHERKIND 1, l_isBackground = False\<rparr>"

definition layerF :: layer where
  "layerF = \<lparr>l_id = 12, l_kind = OTHERKIND 1, l_isBackground = False\<rparr>"

definition layerG :: layer where
  "layerG = \<lparr>l_id = 13, l_kind = OTHERKIND 1, l_isBackground = False\<rparr>"

definition layerH :: layer where
  "layerH = \<lparr>l_id = 14, l_kind = OTHERKIND 1, l_isBackground = False\<rparr>"

definition layerI :: layer where
  "layerI = \<lparr>l_id = 15, l_kind = OTHERKIND 1, l_isBackground = False\<rparr>"

definition layerJ :: layer where
  "layerJ = \<lparr>l_id = 16, l_kind = OTHERKIND 1, l_isBackground = False\<rparr>"

definition layerK :: layer where
  "layerK = \<lparr>l_id = 17, l_kind = OTHERKIND 1, l_isBackground = False\<rparr>"

definition layerL :: layer where
  "layerL = \<lparr>l_id = 18, l_kind = OTHERKIND 1, l_isBackground = False\<rparr>"

definition sampleBounds :: "layer \<Rightarrow> real bounds" where
  "sampleBounds layer =
     (if l_id layer = 1 then boxA else if l_id layer = 2 then boxB
      else if l_id layer = 3 then boxC else if l_id layer = 4 then boxD
      else if l_id layer = 11 then boxE else if l_id layer = 12 then boxF
      else if l_id layer = 13 then boxG else if l_id layer = 14 then boxH
      else if l_id layer = 15 then boxI else if l_id layer = 16 then boxJ
      else if l_id layer = 17 then boxK else if l_id layer = 18 then boxL
      else boxOld)"

definition sampleDocument :: "real document" where
  "sampleDocument = \<lparr>d_id = 7,
     d_bounds = \<lparr>b_left = 0, b_top = 0, b_right = 800, b_bottom = 600, b_width = 800, b_height = 600\<rparr>,
     d_childBounds = sampleBounds,
     d_descendants = (\<lambda>layer. [layer]),
     d_selected = [layerA],
     d_selectedLocked = False\<rparr>"

definition acceptAll :: "real env" where
  "acceptAll = \<lparr>gateway = (\<lambda>call. None), transferred = (\<lambda>call. None), currentDocument = Some sampleDocument\<rparr>"

definition rejectAll :: "real env" where
  "rejectAll = \<lparr>gateway = (\<lambda>call. Some ''native failure''), transferred = (\<lambda>call. None),
     currentDocument = Some sampleDocument\<rparr>"

section \<open>Properties\<close>

text \<open>Unfolding the rounding on concrete numbers.\<close>

lemmas fl_eval = fl_def scaleUp.simps scaleDown.simps roundHalfEven_def pow2_def Let_def

subsection \<open>Swap-location heuristic\<close>

text \<open>
  Claim C1. When the left edges, the right edges or the horizontal centres of the two
  child bounds differ by less than the combined bounding-box width divided by the
  sensitivity (10 when none is given, or when the given one is falsy), each layer keeps
  its own left as \<open>x\<close> and receives the other layer's top as \<open>y\<close>. Differences,
  centres, the quotient and the comparison are the host's.
\<close>

theorem swap_vertical_edge_close:
  assumes "l1 = d_childBounds document layer0" and "l2 = d_childBounds document layer1"
    and "sensitivity = (case sensitivity0 of
                          None \<Rightarrow> n_lit ar 10
                        | Some s \<Rightarrow> if n_truthy ar s then s else n_lit ar 10)"
    and "widthFraction =
           n_div ar (n_sub ar (n_max ar (b_right l1) (b_right l2)) (n_min ar (b_left l1) (b_left l2)))
             sensitivity"
    and "n_less ar (n_abs ar (n_sub ar (b_left l1) (b_left l2))) widthFraction
         \<or> n_less ar (n_abs ar (n_sub ar (b_right l1) (b_right l2))) widthFraction
         \<or> n_less ar (n_abs ar (n_sub ar
               (n_add ar (b_left l1) (n_div ar (b_width l1) (n_lit ar 2)))
               (n_add ar (b_left l2) (n_div ar (b_width l2) (n_lit ar 2))))) widthFraction"
  shows "calculateSwapLocations ar document (layer0 # layer1 # rest) sensitivity0 =
           Some [\<lparr>p_x = Some (b_left l1), p_y = Some (b_top l2)\<rparr>,
                 \<lparr>p_x = Some (b_left l2), p_y = Some (b_top l1)\<rparr>]"
  using assms by (simp add: Let_def)

text \<open>
  The two list items of the sample document (same left and right edges, combined width
  100, threshold 10), and two boxes 30 apart that are close only at sensitivity 2.
\<close>

theorem swap_vertical_edge_close_witness:
  "calculateSwapLocations binary64 sampleDocument [layerA, layerB] None =
     Some [\<lparr>p_x = Some 0, p_y = Some 200\<rparr>,
           \<lparr>p_x = Some 0, p_y = Some 0\<rparr>] \<and>
   calculateSwapLocations binary64 sampleDocument [layerA, layerG] (Some 2) =
     Some [\<lparr>p_x = Some 0, p_y = Some 300\<rparr>,
           \<lparr>p_x = Some 30, p_y = Some 0\<rparr>]"
proof -
  have l11: "boxA = d_childBounds sampleDocument layerA"
    by (simp add: sampleDocument_def sampleBounds_def layerA_def)
  have l21: "boxB = d_childBounds sampleDocument layerB"
    by (simp add: sampleDocument_def sampleBounds_def layerB_def)
  have s1: "(10::real) = (case (None::real option) of None \<Rightarrow> n_lit binary64 10 | Some s \<Rightarrow> if n_truthy binary64 s then s else n_lit binary64 10)"
    by (simp add: binary64_def fl_eval)
  have w1: "(10::real) =
      n_div binary64 (n_sub binary64 (n_max binary64 (b_right boxA) (b_right boxB)) (n_min binary64 (b_left boxA) (b_left boxB))) 10"
    by (simp add: binary64_def boxA_def boxB_def fl_eval)
  have c1: "n_less binary64 (n_abs binary64 (n_sub binary64 (b_left boxA) (b_left boxB))) 10
      \<or> n_less binary64 (n_abs binary64 (n_sub binary64 (b_right boxA) (b_right boxB))) 10
      \<or> n_less binary64 (n_abs binary64 (n_sub binary64 (n_add binary64 (b_left boxA) (n_div binary64 (b_width boxA) (n_lit binary64 2))) (n_add binary64 (b_left boxB) (n_div binary64 (b_width boxB) (n_lit binary64 2)))))
        10"
    by (simp add: binary64_def boxA_def boxB_def fl_eval)
  have r1: "calculateSwapLocations binary64 sampleDocument [layerA, layerB] None =
     Some [\<lparr>p_x = Some 0, p_y = Some 200\<rparr>,
           \<lparr>p_x = Some 0, p_y = Some 0\<rparr>]"
    unfolding swap_vertical_edge_close [OF l11 l21 s1 w1 c1, of "[]"]
    by (simp add: binary64_def boxA_def boxB_def fl_eval)
  have l12: "boxA = d_childBounds sampleDocument layerA"
    by (simp add: sampleDocument_def sampleBounds_def layerA_def)
  have l22: "boxG = d_childBounds sampleDocument layerG"
    by (simp add: sampleDocument_def sampleBounds_def layerG_def)
  have s2: "(2::real) = (case Some (2::real) of None \<Rightarrow> n_lit binary64 10 | Some s \<Rightarrow> if n_truthy binary64 s then s else n_lit binary64 10)"
    by (simp add: binary64_def fl_eval)
  have w2: "(65::real) =
      n_div binary64 (n_sub binary64 (n_max binary64 (b_right boxA) (b_right boxG)) (n_min binary64 (b_left boxA) (b_left boxG))) 2"
    by (simp add: binary64_def boxA_def boxG_def fl_eval)
  have c2: "n_less binary64 (n_abs binary64 (n_sub binary64 (b_left boxA) (b_left boxG))) 65
      \<or> n_less binary64 (n_abs binary64 (n_sub binary64 (b_right boxA) (b_right boxG))) 65
      \<or> n_less binary64 (n_abs binary64 (n_sub binary64 (n_add binary64 (b_left boxA) (n_div binary64 (b_width boxA) (n_lit binary64 2))) (n_add binary64 (b_left boxG) (n_div binary64 (b_width boxG) (n_lit binary64 2)))))
        65"
    by (simp add: binary64_def boxA_def boxG_def fl_eval)
  have r2: "calculateSwapLocations binary64 sampleDocument [layerA, layerG] (Some 2) =
     Some [\<lparr>p_x = Some 0, p_y = Some 300\<rparr>,
           \<lparr>p_x = Some 30, p_y = Some 0\<rparr>]"
    unfolding swap_vertical_edge_close [OF l12 l22 s2 w2 c2, of "[]"]
    by (simp add: binary64_def boxA_def boxG_def fl_eval)
  from r1 r2 show ?thesis by blast
qed

text \<open>
  Claim C2. When the vertical-edge-close rule does not apply, the remaining rules are
  tried in order: if the tops, the bottoms or the vertical centres differ by less than the
  combined height divided by the sensitivity, each layer keeps its top and its new left
  is the combined left plus the combined right minus its own right edge; otherwise the
  two layers exchange their top-left corners.
\<close>

theorem swap_remaining_rules:
  assumes "l1 = d_childBounds document layer0" and "l2 = d_childBounds document layer1"
    and "sensitivity = (case sensitivity0 of
                          None \<Rightarrow> n_lit ar 10
                        | Some s \<Rightarrow> if n_truthy ar s then s else n_lit ar 10)"
    and "boundingBoxLeft = n_min ar (b_left l1) (b_left l2)"
    and "boundingBoxRight = n_max ar (b_right l1) (b_right l2)"
    and "widthFraction = n_div ar (n_sub ar boundingBoxRight boundingBoxLeft) sensitivity"
    and "heightFraction =
           n_div ar (n_sub ar (n_max ar (b_bottom l1) (b_bottom l2)) (n_min ar (b_top l1) (b_top l2)))
             sensitivity"
    and "\<not> (n_less ar (n_abs ar (n_sub ar (b_left l1) (b_left l2))) widthFraction
            \<or> n_less ar (n_abs ar (n_sub ar (b_right l1) (b_right l2))) widthFraction
            \<or> n_less ar (n_abs ar (n_sub ar
                  (n_add ar (b_left l1) (n_div ar (b_width l1) (n_lit ar 2)))
                  (n_add ar (b_left l2) (n_div ar (b_width l2) (n_lit ar 2))))) widthFraction)"
  shows "calculateSwapLocations ar document (layer0 # layer1 # rest) sensitivity0 =
           Some (if n_less ar (n_abs ar (n_sub ar (b_top l1) (b_top l2))) heightFraction
                    \<or> n_less ar (n_abs ar (n_sub ar (b_bottom l1) (b_bottom l2))) heightFraction
                    \<or> n_less ar (n_abs ar (n_sub ar
                          (n_add ar (b_top l1) (n_div ar (b_height l1) (n_lit ar 2)))
                          (n_add ar (b_top l2) (n_div ar (b_height l2) (n_lit ar 2))))) heightFraction
                 then [\<lparr>p_x = Some (n_sub ar (n_add ar boundingBoxLeft boundingBoxRight) (b_right l1)),
                         p_y = Some (b_top l1)\<rparr>,
                       \<lparr>p_x = Some (n_sub ar (n_add ar boundingBoxLeft boundingBoxRight) (b_right l2)),
                         p_y = Some (b_top l2)\<rparr>]
                 else [\<lparr>p_x = Some (b_left l2), p_y = Some (b_top l2)\<rparr>,
                       \<lparr>p_x = Some (b_left l1), p_y = Some (b_top l1)\<rparr>])"
  using assms by (simp add: Let_def)

text \<open>
  With integer coordinates: a box to the right of the first one is mirrored, a box
  diagonally below it exchanges corners with it, and so does the box 30 apart at the
  default sensitivity. With rounding: the lefts of \<open>boxE\<close> and \<open>boxF\<close> differ by the
  double \<open>0.3\<close>, which is not less than the quotient \<open>3 / 10\<close> rounded to the same
  double, so the corners are exchanged, and likewise for the tops of \<open>boxK\<close> and \<open>boxL\<close>; the
  mirrored lefts of \<open>boxI\<close> and \<open>boxJ\<close> are the
  rounded sums and differences, \<open>99.3\<close> and \<open>0.09999999999999432\<close>.
\<close>

theorem swap_remaining_rules_witness:
  "calculateSwapLocations binary64 sampleDocument [layerA, layerC] None =
     Some [\<lparr>p_x = Some 200, p_y = Some 0\<rparr>,
           \<lparr>p_x = Some 0, p_y = Some 0\<rparr>] \<and>
   calculateSwapLocations binary64 sampleDocument [layerA, layerD] None =
     Some [\<lparr>p_x = Some 200, p_y = Some 200\<rparr>,
           \<lparr>p_x = Some 0, p_y = Some 0\<rparr>] \<and>
   calculateSwapLocations binary64 sampleDocument [layerA, layerG] None =
     Some [\<lparr>p_x = Some 30, p_y = Some 300\<rparr>,
           \<lparr>p_x = Some 0, p_y = Some 0\<rparr>] \<and>
   calculateSwapLocations binary64 sampleDocument [layerE, layerF] None =
     Some [\<lparr>p_x = Some (5404319552844595 / 18014398509481984), p_y = Some 100\<rparr>,
           \<lparr>p_x = Some 0, p_y = Some 0\<rparr>] \<and>
   calculateSwapLocations binary64 sampleDocument [layerK, layerL] None =
     Some [\<lparr>p_x = Some 100, p_y = Some (5404319552844595 / 18014398509481984)\<rparr>,
           \<lparr>p_x = Some 0, p_y = Some 0\<rparr>] \<and>
   calculateSwapLocations binary64 sampleDocument [layerI, layerJ] None =
     Some [\<lparr>p_x = Some (6987616296842035 / 70368744177664), p_y = Some 0\<rparr>,
           \<lparr>p_x = Some (3518437208883 / 35184372088832), p_y = Some 0\<rparr>]"
proof -
  have l11: "boxA = d_childBounds sampleDocument layerA"
    by (simp add: sampleDocument_def sampleBounds_def layerA_def)
  have l21: "boxC = d_childBounds sampleDocument layerC"
    by (simp add: sampleDocument_def sampleBounds_def layerC_def)
  have s1: "(10::real) = (case (None::real option) of None \<Rightarrow> n_lit binary64 10 | Some s \<Rightarrow> if n_truthy binary64 s then s else n_lit binary64 10)"
    by (simp add: binary64_def fl_eval)
  have bl1: "(0::real) = n_min binary64 (b_left boxA) (b_left boxC)"
    by (simp add: binary64_def boxA_def boxC_def fl_eval)
  have br1: "(300::real) = n_max binary64 (b_right boxA) (b_right boxC)"
    by (simp add: binary64_def boxA_def boxC_def fl_eval)
  have w1: "(30::real) = n_div binary64 (n_sub binary64 300 0) 10"
    by (simp add: binary64_def fl_eval)
  have h1: "(5::real) =
      n_div binary64 (n_sub binary64 (n_max binary64 (b_bottom boxA) (b_bottom boxC))
        (n_min binary64 (b_top boxA) (b_top boxC))) 10"
    by (simp add: binary64_def boxA_def boxC_def fl_eval)
  have n1: "\<not> (n_less binary64 (n_abs binary64 (n_sub binary64 (b_left boxA) (b_left boxC))) 30
      \<or> n_less binary64 (n_abs binary64 (n_sub binary64 (b_right boxA) (b_right boxC))) 30
      \<or> n_less binary64 (n_abs binary64 (n_sub binary64 (n_add binary64 (b_left boxA) (n_div binary64 (b_width boxA) (n_lit binary64 2))) (n_add binary64 (b_left boxC) (n_div binary64 (b_width boxC) (n_lit binary64 2)))))
        30)"
    by (simp add: binary64_def boxA_def boxC_def fl_eval)
  have r1: "calculateSwapLocations binary64 sampleDocument [layerA, layerC] None =
     Some [\<lparr>p_x = Some 200, p_y = Some 0\<rparr>,
           \<lparr>p_x = Some 0, p_y = Some 0\<rparr>]"
    unfolding swap_remaining_rules [OF l11 l21 s1 bl1 br1 w1 h1 n1, of "[]"]
    by (simp add: binary64_def boxA_def boxC_def fl_eval)
  have l12: "boxA = d_childBounds sampleDocument layerA"
    by (simp add: sampleDocument_def sampleBounds_def layerA_def)
  have l22: "boxD = d_childBounds sampleDocument layerD"
    by (simp add: sampleDocument_def sampleBounds_def layerD_def)
  have s2: "(10::real) = (case (None::real option) of None \<Rightarrow> n_lit binary64 10 | Some s \<Rightarrow> if n_truthy binary64 s then s else n_lit binary64 10)"
    by (simp add: binary64_def fl_eval)
  have bl2: "(0::real) = n_min binary64 (b_left boxA) (b_left boxD)"
    by (simp add: binary64_def boxA_def boxD_def fl_eval)
  have br2: "(300::real) = n_max binary64 (b_right boxA) (b_right boxD)"
    by (simp add: binary64_def boxA_def boxD_def fl_eval)
  have w2: "(30::real) = n_div binary64 (n_sub binary64 300 0) 10"
    by (simp add: binary64_def fl_eval)
  have h2: "(30::real) =
      n_div binary64 (n_sub binary64 (n_max binary64 (b_bottom boxA) (b_bottom boxD))
        (n_min binary64 (b_top boxA) (b_top boxD))) 10"
    by (simp add: binary64_def boxA_def boxD_def fl_eval)
  have n2: "\<not> (n_less binary64 (n_abs binary64 (n_sub binary64 (b_left boxA) (b_left boxD))) 30
      \<or> n_less binary64 (n_abs binary64 (n_sub binary64 (b_right boxA) (b_right boxD))) 30
      \<or> n_less binary64 (n_abs binary64 (n_sub binary64 (n_add binary64 (b_left boxA) (n_div binary64 (b_width boxA) (n_lit binary64 2))) (n_add binary64 (b_left boxD) (n_div binary64 (b_width boxD) (n_lit binary64 2)))))
        30)"
    by (simp add: binary64_def boxA_def boxD_def fl_eval)
  have r2: "calculateSwapLocations binary64 sampleDocument [layerA, layerD] None =
     Some [\<lparr>p_x = Some 200, p_y = Some 200\<rparr>,
           \<lparr>p_x = Some 0, p_y = Some 0\<rparr>]"
    unfolding swap_remaining_rules [OF l12 l22 s2 bl2 br2 w2 h2 n2, of "[]"]
    by (simp add: binary64_def boxA_def boxD_def fl_eval)
  have l13: "boxA = d_childBounds sampleDocument layerA"
    by (simp add: sampleDocument_def sampleBounds_def layerA_def)
  have l23: "boxG = d_childBounds sampleDocument layerG"
    by (simp add: sampleDocument_def sampleBounds_def layerG_def)
  have s3: "(10::real) = (case (None::real option) of None \<Rightarrow> n_lit binary64 10 | Some s \<Rightarrow> if n_truthy binary64 s then s else n_lit binary64 10)"
    by (simp add: binary64_def fl_eval)
  have bl3: "(0::real) = n_min binary64 (b_left boxA) (b_left boxG)"
    by (simp add: binary64_def boxA_def boxG_def fl_eval)
  have br3: "(130::real) = n_max binary64 (b_right boxA) (b_right boxG)"
    by (simp add: binary64_def boxA_def boxG_def fl_eval)
  have w3: "(13::real) = n_div binary64 (n_sub binary64 130 0) 10"
    by (simp add: binary64_def fl_eval)
  have h3: "(35::real) =
      n_div binary64 (n_sub binary64 (n_max binary64 (b_bottom boxA) (b_bottom boxG))
        (n_min binary64 (b_top boxA) (b_top boxG))) 10"
    by (simp add: binary64_def boxA_def boxG_def fl_eval)
  have n3: "\<not> (n_less binary64 (n_abs binary64 (n_sub binary64 (b_left boxA) (b_left boxG))) 13
      \<or> n_less binary64 (n_abs binary64 (n_sub binary64 (b_right boxA) (b_right boxG))) 13
      \<or> n_less binary64 (n_abs binary64 (n_sub binary64 (n_add binary64 (b_left boxA) (n_div binary64 (b_width boxA) (n_lit binary64 2))) (n_add binary64 (b_left boxG) (n_div binary64 (b_width boxG) (n_lit binary64 2)))))
        13)"
    by (simp add: binary64_def boxA_def boxG_def fl_eval)
  have r3: "calculateSwapLocations binary64 sampleDocument [layerA, layerG] None =
     Some [\<lparr>p_x = Some 30, p_y = Some 300\<rparr>,
           \<lparr>p_x = Some 0, p_y = Some 0\<rparr>]"
    unfolding swap_remaining_rules [OF l13 l23 s3 bl3 br3 w3 h3 n3, of "[]"]
    by (simp add: binary64_def boxA_def boxG_def fl_eval)
  have l14: "boxE = d_childBounds sampleDocument layerE"
    by (simp add: sampleDocument_def sampleBounds_def layerE_def)
  have l24: "boxF = d_childBounds sampleDocument layerF"
    by (simp add: sampleDocument_def sampleBounds_def layerF_def)
  have s4: "(10::real) = (case (None::real option) of None \<Rightarrow> n_lit binary64 10 | Some s \<Rightarrow> if n_truthy binary64 s then s else n_lit binary64 10)"
    by (simp add: binary64_def fl_eval)
  have bl4: "(0::real) = n_min binary64 (b_left boxE) (b_left boxF)"
    by (simp add: binary64_def boxE_def boxF_def fl_eval)
  have br4: "(3::real) = n_max binary64 (b_right boxE) (b_right boxF)"
    by (simp add: binary64_def boxE_def boxF_def fl_eval)
  have w4: "(5404319552844595 / 18014398509481984::real) = n_div binary64 (n_sub binary64 3 0) 10"
    by (simp add: binary64_def fl_eval)
  have h4: "(5685794529555251 / 562949953421312::real) =
      n_div binary64 (n_sub binary64 (n_max binary64 (b_bottom boxE) (b_bottom boxF))
        (n_min binary64 (b_top boxE) (b_top boxF))) 10"
    by (simp add: binary64_def boxE_def boxF_def fl_eval)
  have n4: "\<not> (n_less binary64 (n_abs binary64 (n_sub binary64 (b_left boxE) (b_left boxF))) (5404319552844595 / 18014398509481984)
      \<or> n_less binary64 (n_abs binary64 (n_sub binary64 (b_right boxE) (b_right boxF))) (5404319552844595 / 18014398509481984)
      \<or> n_less binary64 (n_abs binary64 (n_sub binary64 (n_add binary64 (b_left boxE) (n_div binary64 (b_width boxE) (n_lit binary64 2))) (n_add binary64 (b_left boxF) (n_div binary64 (b_width boxF) (n_lit binary64 2)))))
        (5404319552844595 / 18014398509481984))"
    by (simp add: binary64_def boxE_def boxF_def fl_eval)
  have r4: "calculateSwapLocations binary64 sampleDocument [layerE, layerF] None =
     Some [\<lparr>p_x = Some (5404319552844595 / 18014398509481984), p_y = Some 100\<rparr>,
           \<lparr>p_x = Some 0, p_y = Some 0\<rparr>]"
    unfolding swap_remaining_rules [OF l14 l24 s4 bl4 br4 w4 h4 n4, of "[]"]
    by (simp add: binary64_def boxE_def boxF_def fl_eval)
  have l15: "boxK = d_childBounds sampleDocument layerK"
    by (simp add: sampleDocument_def sampleBounds_def layerK_def)
  have l25: "boxL = d_childBounds sampleDocument layerL"
    by (simp add: sampleDocument_def sampleBounds_def layerL_def)
  have s5: "(10::real) = (case (None::real option) of None \<Rightarrow> n_lit binary64 10 | Some s \<Rightarrow> if n_truthy binary64 s then s else n_lit binary64 10)"
    by (simp add: binary64_def fl_eval)
  have bl5: "(0::real) = n_min binary64 (b_left boxK) (b_left boxL)"
    by (simp add: binary64_def boxK_def boxL_def fl_eval)
  have br5: "(101::real) = n_max binary64 (b_right boxK) (b_right boxL)"
    by (simp add: binary64_def boxK_def boxL_def fl_eval)
  have w5: "(5685794529555251 / 562949953421312::real) = n_div binary64 (n_sub binary64 101 0) 10"
    by (simp add: binary64_def fl_eval)
  have h5: "(5404319552844595 / 18014398509481984::real) =
      n_div binary64 (n_sub binary64 (n_max binary64 (b_bottom boxK) (b_bottom boxL))
        (n_min binary64 (b_top boxK) (b_top boxL))) 10"
    by (simp add: binary64_def boxK_def boxL_def fl_eval)
  have n5: "\<not> (n_less binary64 (n_abs binary64 (n_sub binary64 (b_left boxK) (b_left boxL))) (5685794529555251 / 562949953421312)
      \<or> n_less binary64 (n_abs binary64 (n_sub binary64 (b_right boxK) (b_right boxL))) (5685794529555251 / 562949953421312)
      \<or> n_less binary64 (n_abs binary64 (n_sub binary64 (n_add binary64 (b_left boxK) (n_div binary64 (b_width boxK) (n_lit binary64 2))) (n_add binary64 (b_left boxL) (n_div binary64 (b_width boxL) (n_lit binary64 2)))))
        (5685794529555251 / 562949953421312))"
    by (simp add: binary64_def boxK_def boxL_def fl_eval)
  have r5: "calculateSwapLocations binary64 sampleDocument [layerK, layerL] None =
     Some [\<lparr>p_x = Some 100, p_y = Some (5404319552844595 / 18014398509481984)\<rparr>,
           \<lparr>p_x = Some 0, p_y = Some 0\<rparr>]"
    unfolding swap_remaining_rules [OF l15 l25 s5 bl5 br5 w5 h5 n5, of "[]"]
    by (simp add: binary64_def boxK_def boxL_def fl_eval)
  have l16: "boxI = d_childBounds sampleDocument layerI"
    by (simp add: sampleDocument_def sampleBounds_def layerI_def)
  have l26: "boxJ = d_childBounds sampleDocument layerJ"
    by (simp add: sampleDocument_def sampleBounds_def layerJ_def)
  have s6: "(10::real) = (case (None::real option) of None \<Rightarrow> n_lit binary64 10 | Some s \<Rightarrow> if n_truthy binary64 s then s else n_lit binary64 10)"
    by (simp add: binary64_def fl_eval)
  have bl6: "(3602879701896397 / 36028797018963968::real) = n_min binary64 (b_left boxI) (b_left boxJ)"
    by (simp add: binary64_def boxI_def boxJ_def fl_eval)
  have br6: "(7050948166601933 / 70368744177664::real) = n_max binary64 (b_right boxI) (b_right boxJ)"
    by (simp add: binary64_def boxI_def boxJ_def fl_eval)
  have w6: "(2817564516873667 / 281474976710656::real) = n_div binary64 (n_sub binary64 (7050948166601933 / 70368744177664) (3602879701896397 / 36028797018963968)) 10"
    by (simp add: binary64_def fl_eval)
  have h6: "(1::real) =
      n_div binary64 (n_sub binary64 (n_max binary64 (b_bottom boxI) (b_bottom boxJ))
        (n_min binary64 (b_top boxI) (b_top boxJ))) 10"
    by (simp add: binary64_def boxI_def boxJ_def fl_eval)
  have n6: "\<not> (n_less binary64 (n_abs binary64 (n_sub binary64 (b_left boxI) (b_left boxJ))) (2817564516873667 / 281474976710656)
      \<or> n_less binary64 (n_abs binary64 (n_sub binary64 (b_right boxI) (b_right boxJ))) (2817564516873667 / 281474976710656)
      \<or> n_less binary64 (n_abs binary64 (n_sub binary64 (n_add binary64 (b_left boxI) (n_div binary64 (b_width boxI) (n_lit binary64 2))) (n_add binary64 (b_left boxJ) (n_div binary64 (b_width boxJ) (n_lit binary64 2)))))
        (2817564516873667 / 281474976710656))"
    by (simp add: binary64_def boxI_def boxJ_def fl_eval)
  have r6: "calculateSwapLocations binary64 sampleDocument [layerI, layerJ] None =
     Some [\<lparr>p_x = Some (6987616296842035 / 70368744177664), p_y = Some 0\<rparr>,
           \<lparr>p_x = Some (3518437208883 / 35184372088832), p_y = Some 0\<rparr>]"
    unfolding swap_remaining_rules [OF l16 l26 s6 bl6 br6 w6 h6 n6, of "[]"]
    by (simp add: binary64_def boxI_def boxJ_def fl_eval)
  from r1 r2 r3 r4 r5 r6 show ?thesis by blast
qed

subsection \<open>Failure policy of the commands that issue native calls\<close>

text \<open>What \<open>playThen\<close> leaves in the trace, and the promise it returns.\<close>

lemma playThen_trace:
  "fst (playThen e call k) =
     Native call # (case gateway e call of Some r \<Rightarrow> []
                    | None \<Rightarrow> (case k of None \<Rightarrow> [] | Some t \<Rightarrow> [Transfer t]))"
  by (simp add: playThen_def split: option.splits)

lemma playThen_outcome:
  "snd (playThen e call k) =
     (case gateway e call of Some r \<Rightarrow> Rejects r
      | None \<Rightarrow> (case k of None \<Rightarrow> Resolves
                  | Some t \<Rightarrow> (case transferred e t of Some r \<Rightarrow> Rejects r | None \<Rightarrow> Resolves)))"
  by (simp add: playThen_def split: option.splits)

text \<open>Each command dispatches its events first and ends in one \<open>playThen\<close>.\<close>

lemma setPositionCommand_shape:
  "\<exists>ev call k. setPositionCommand ar e document layerSpec position =
     (Dispatch ev # fst (playThen e call k), snd (playThen e call k))"
  unfolding setPositionCommand_def Let_def split_beta
  by (cases "notGroupEnd layerSpec" rule: list.exhaust; simp split: list.splits; blast)

lemma setSizeCommand_shape:
  "\<exists>ev call k. setSizeCommand ar e document layerSpec sz =
     (Dispatch ev # fst (playThen e call k), snd (playThen e call k))"
  unfolding setSizeCommand_def Let_def split_beta
  by (cases "notGroupEnd layerSpec" rule: list.exhaust; simp split: list.splits; blast)

lemma setRadiusCommand_shape:
  "\<exists>ev call k. setRadiusCommand e document layers radius =
     (Dispatch ev # fst (playThen e call k), snd (playThen e call k))"
  unfolding setRadiusCommand_def Let_def split_beta by blast

lemma swapLayersCommand_shape:
  "(\<exists>out. swapLayersCommand ar e document layers = ([], out) \<and> (out = Resolves \<or> (\<exists>m. out = Throws m))) \<or>
   (\<exists>ev1 ev2 call k. swapLayersCommand ar e document layers =
      (Dispatch ev1 # Dispatch ev2 # fst (playThen e call k), snd (playThen e call k)))"
  unfolding swapLayersCommand_def Let_def split_beta
  by (simp split: option.splits; blast)

lemma flipCommand_shape:
  "(\<exists>m. flipCommand e document layers axis = ([], Throws m)) \<or>
   (\<exists>call k. flipCommand e document layers axis = (fst (playThen e call k), snd (playThen e call k)))"
  unfolding flipCommand_def
  by (simp split: option.splits; blast)

lemma setBoundsCommand_shape:
  "\<exists>call k. setBoundsCommand ar e document oldBounds newBounds = (fst (playThen e call k), snd (playThen e call k))"
  unfolding setBoundsCommand_def Let_def by simp blast

lemma rotateCommand_shape:
  "\<exists>call k. rotateCommand e document angle = (fst (playThen e call k), snd (playThen e call k))"
  unfolding rotateCommand_def Let_def by simp blast

lemma policy_of_shape:
  assumes "effs = ds @ fst (playThen e call k)" and "out = snd (playThen e call k)"
  shows "\<exists>rest. effs = ds @ Native call # rest \<and>
      (case gateway e call of
         Some r \<Rightarrow> rest = [] \<and> out = Rejects r
       | None \<Rightarrow> (rest = [] \<and> out = Resolves) \<or>
                 (\<exists>t. rest = [Transfer t] \<and>
                      out = (case transferred e t of Some r \<Rightarrow> Rejects r | None \<Rightarrow> Resolves)))"
  using assms by (simp add: playThen_trace playThen_outcome split: option.splits)

text \<open>
  Claim C3, as stated, asks that every command issuing a native call dispatches its
  optimistic event before the first call. \<open>flipX\<close> on one ordinary layer issues its
  play object and dispatches nothing: the dispatch of \<open>FLIP_LAYERS\<close> is commented out
  in the source, and \<open>setBounds\<close> and \<open>rotate\<close> have none either.
\<close>

theorem optimistic_dispatch_counterexample:
  "nativeCalls (fst (invoke binary64 acceptAll (InvokeFlipX sampleDocument [layerA]))) =
     [PlayObject (Flip (LayerId 1) ''horizontal'')] \<and>
   filter isDispatch (fst (invoke binary64 acceptAll (InvokeFlipX sampleDocument [layerA]))) = []"
  by (simp add: flipXCommand_def flipCommand_def playThen_def acceptAll_def layerA_def)

text \<open>
  Claim C3, amended. Every invocation either leaves an empty trace (a precondition
  failure or a no-op) or issues exactly one native call. Everything before that call is a
  dispatched event: at least one for \<open>setPosition\<close>, \<open>setSize\<close>, \<open>swapLayers\<close> and
  \<open>setRadius\<close>, none for \<open>setBounds\<close>, \<open>flipX\<close>, \<open>flipY\<close> and \<open>rotate\<close>. If the
  gateway rejects the call, nothing follows it (no further event, no transfer) and the
  command rejects with the gateway's reason unchanged. If the gateway accepts it, at most
  the reconciliation transfer follows, and its promise is the command's result.
\<close>

theorem native_failure_policy:
  assumes "invoke ar e cmd = (effs, out)"
  shows "(effs = [] \<and> (out = Resolves \<or> (\<exists>m. out = Throws m))) \<or>
         (\<exists>ds call rest. effs = ds @ Native call # rest \<and> list_all isDispatch ds \<and>
            (ds \<noteq> [] \<longleftrightarrow> dispatchesEvent cmd) \<and>
            (case gateway e call of
               Some r \<Rightarrow> rest = [] \<and> out = Rejects r
             | None \<Rightarrow> (rest = [] \<and> out = Resolves) \<or>
                       (\<exists>t. rest = [Transfer t] \<and>
                            out = (case transferred e t of Some r \<Rightarrow> Rejects r | None \<Rightarrow> Resolves))))"
proof -
  have with_dispatch: ?thesis
    if "effs = ds @ fst (playThen e call k)" "out = snd (playThen e call k)"
       "list_all isDispatch ds" "ds \<noteq> [] \<longleftrightarrow> dispatchesEvent cmd" for ds call k
    using policy_of_shape [OF that(1,2)] that(3,4) by blast
  show ?thesis
  proof (cases cmd)
    case (InvokeSetPosition document layerSpec position)
    with assms setPositionCommand_shape [of ar e document layerSpec position]
    obtain ev call k where "effs = [Dispatch ev] @ fst (playThen e call k)" "out = snd (playThen e call k)"
      by (auto simp: prod_eq_iff)
    then show ?thesis using InvokeSetPosition by (intro with_dispatch [of "[Dispatch ev]" call k]) simp_all
  next
    case (InvokeSetSize document layerSpec sz)
    with assms setSizeCommand_shape [of ar e document layerSpec sz]
    obtain ev call k where "effs = [Dispatch ev] @ fst (playThen e call k)" "out = snd (playThen e call k)"
      by (auto simp: prod_eq_iff)
    then show ?thesis using InvokeSetSize by (intro with_dispatch [of "[Dispatch ev]" call k]) simp_all
  next
    case (InvokeSetBounds document oldBounds newBounds)
    with assms setBoundsCommand_shape [of ar e document oldBounds newBounds]
    obtain call k where "effs = [] @ fst (playThen e call k)" "out = snd (playThen e call k)"
      by (auto simp: prod_eq_iff)
    then show ?thesis using InvokeSetBounds by (intro with_dispatch [of "[]" call k]) simp_all
  next
    case (InvokeFlipX document layers)
    with assms flipCommand_shape [of e document layers "''horizontal''"]
    consider m where "effs = []" "out = Throws m"
      | call k where "effs = [] @ fst (playThen e call k)" "out = snd (playThen e call k)"
      by (auto simp: flipXCommand_def prod_eq_iff)
    then show ?thesis
    proof cases
      case 1
      then show ?thesis by simp
    next
      case 2
      then show ?thesis using InvokeFlipX by (intro with_dispatch [of "[]" call k]) simp_all
    qed
  next
    case (InvokeFlipY document layers)
    with assms flipCommand_shape [of e document layers "''vertical''"]
    consider m where "effs = []" "out = Throws m"
      | call k where "effs = [] @ fst (playThen e call k)" "out = snd (playThen e call k)"
      by (auto simp: flipYCommand_def prod_eq_iff)
    then show ?thesis
    proof cases
      case 1
      then show ?thesis by simp
    next
      case 2
      then show ?thesis using InvokeFlipY by (intro with_dispatch [of "[]" call k]) simp_all
    qed
  next
    case (InvokeSwapLayers document layers)
    with assms swapLayersCommand_shape [of ar e document layers]
    consider "effs = []" "out = Resolves \<or> (\<exists>m. out = Throws m)"
      | ev1 ev2 call k where "effs = [Dispatch ev1, Dispatch ev2] @ fst (playThen e call k)"
          "out = snd (playThen e call k)"
      by (auto simp: prod_eq_iff)
    then show ?thesis
    proof cases
      case 1
      then show ?thesis by simp
    next
      case 2
      then show ?thesis using InvokeSwapLayers by (intro with_dispatch [of "[Dispatch ev1, Dispatch ev2]" call k]) simp_all
    qed
  next
    case (InvokeSetRadius document layers radius)
    with assms setRadiusCommand_shape [of e document layers radius]
    obtain ev call k where "effs = [Dispatch ev] @ fst (playThen e call k)" "out = snd (playThen e call k)"
      by (auto simp: prod_eq_iff)
    then show ?thesis using InvokeSetRadius by (intro with_dispatch [of "[Dispatch ev]" call k]) simp_all
  next
    case (InvokeRotate document angle)
    with assms rotateCommand_shape [of e document angle]
    obtain call k where "effs = [] @ fst (playThen e call k)" "out = snd (playThen e call k)"
      by (auto simp: prod_eq_iff)
    then show ?thesis using InvokeRotate by (intro with_dispatch [of "[]" call k]) simp_all
  qed
qed

text \<open>
  \<open>setPosition\<close> on a group with a gateway that rejects: the event and the call,
  then the rejection; no transfer.
\<close>

theorem native_failure_policy_witness:
  "invoke binary64 rejectAll (InvokeSetPosition sampleDocument [layerD] \<lparr>p_x = Some 10, p_y = None\<rparr>) =
     ([Dispatch (TRANSLATE_LAYERS 7 [4] \<lparr>p_x = Some 10, p_y = None\<rparr>),
       Native (PlayObject (Translate [DocumentId 7, LayerId 4] (Pixels (- 190)) (Pixels 0)))],
      Rejects ''native failure'') \<and>
   (\<exists>ds call. [Dispatch (TRANSLATE_LAYERS 7 [4] \<lparr>p_x = Some 10, p_y = None\<rparr>),
       Native (PlayObject (Translate [DocumentId 7, LayerId 4] (Pixels (- 190)) (Pixels 0)))] =
       ds @ [Native call] \<and> list_all isDispatch ds \<and> ds \<noteq> [] \<and>
       gateway rejectAll call = Some ''native failure'')"
proof -
  have moved: "getTranslatePlayObject binary64 sampleDocument layerD \<lparr>p_x = Some 10, p_y = None\<rparr> =
      Translate [DocumentId 7, LayerId 4] (Pixels (- 190)) (Pixels 0)"
    by (simp add: getTranslatePlayObject_def sampleDocument_def sampleBounds_def layerD_def boxD_def
          binary64_def fl_eval)
  have run: "invoke binary64 rejectAll (InvokeSetPosition sampleDocument [layerD] \<lparr>p_x = Some 10, p_y = None\<rparr>) =
     ([Dispatch (TRANSLATE_LAYERS 7 [4] \<lparr>p_x = Some 10, p_y = None\<rparr>),
       Native (PlayObject (Translate [DocumentId 7, LayerId 4] (Pixels (- 190)) (Pixels 0)))],
      Rejects ''native failure'')"
  proof -
    have k: "l_kind layerD = GROUP" and i: "l_id layerD = 4" and d: "d_id sampleDocument = 7"
      by (simp_all add: layerD_def sampleDocument_def)
    show ?thesis
      by (simp add: setPositionCommand_def notGroupEnd_def moved playThen_def rejectAll_def k i d)
  qed
  have rej: "gateway rejectAll call = Some ''native failure''" for call
    by (simp add: rejectAll_def)
  from native_failure_policy [OF run] have
    "\<exists>ds call rest. [Dispatch (TRANSLATE_LAYERS 7 [4] \<lparr>p_x = Some 10, p_y = None\<rparr>),
       Native (PlayObject (Translate [DocumentId 7, LayerId 4] (Pixels (- 190)) (Pixels 0)))] =
       ds @ Native call # rest \<and> list_all isDispatch ds \<and> ds \<noteq> [] \<and> rest = []"
    by (simp add: rej)
  with run rej show ?thesis by blast
qed

subsection \<open>Preconditions\<close>

text \<open>
  Claim C4. \<open>flipCommand\<close> on a layer list without a non-background layer, the empty
  list included, throws before anything is issued: the trace is empty.
\<close>

theorem flip_requires_non_background_layer:
  assumes "\<forall>l \<in> set layers. l_isBackground l"
  shows "flipCommand e document layers axis =
           ([], Throws (if layers = [] then ''Expected at least one layer''
                        else ''flip was not provided a valid non-background layer''))"
proof (cases layers)
  case Nil
  then show ?thesis by (simp add: flipCommand_def)
next
  case (Cons l ls)
  from assms have "find (\<lambda>l. \<not> l_isBackground l) layers = None"
    by (simp add: find_None_iff)
  with Cons show ?thesis by (simp add: flipCommand_def)
qed

text \<open>
  The empty list and a list holding only the background layer.
\<close>

theorem flip_requires_non_background_layer_witness:
  "flipCommand acceptAll sampleDocument [] ''horizontal'' = ([], Throws ''Expected at least one layer'') \<and>
   flipCommand acceptAll sampleDocument [backgroundLayer] ''vertical'' =
     ([], Throws ''flip was not provided a valid non-background layer'')"
  using flip_requires_non_background_layer [where layers = "[]" and e = acceptAll
          and document = sampleDocument and axis = "''horizontal''"]
        flip_requires_non_background_layer [where layers = "[backgroundLayer]" and e = acceptAll
          and document = sampleDocument and axis = "''vertical''"]
  by (simp add: backgroundLayer_def)

text \<open>
  Claim C5. \<open>swapLayersCommand\<close> throws with an empty trace unless it is given
  exactly two layers, and resolves with an empty trace when both are group ends.
\<close>

theorem swapLayers_preconditions:
  "(length layers \<noteq> 2 \<longrightarrow>
      swapLayersCommand ar e document layers = ([], Throws ''Expected two layers'')) \<and>
   (length layers = 2 \<and> (\<forall>layer \<in> set layers. l_kind layer = GROUPEND) \<longrightarrow>
      swapLayersCommand ar e document layers = ([], Resolves))"
  by (simp add: swapLayersCommand_def list_all_iff)

text \<open>
  One layer, three layers, and two group ends.
\<close>

theorem swapLayers_preconditions_witness:
  "swapLayersCommand binary64 acceptAll sampleDocument [layerA] = ([], Throws ''Expected two layers'') \<and>
   swapLayersCommand binary64 acceptAll sampleDocument [layerA, layerB, layerC] = ([], Throws ''Expected two layers'') \<and>
   swapLayersCommand binary64 acceptAll sampleDocument [groupEnd, groupEnd] = ([], Resolves)"
  using swapLayers_preconditions [where layers = "[layerA]" and ar = binary64 and e = acceptAll and document = sampleDocument]
        swapLayers_preconditions [where layers = "[layerA, layerB, layerC]" and ar = binary64
          and e = acceptAll
          and document = sampleDocument]
        swapLayers_preconditions [where layers = "[groupEnd, groupEnd]" and ar = binary64
          and e = acceptAll
          and document = sampleDocument]
  by (simp add: groupEnd_def)

text \<open>
  Claim C9. Without an \<open>angle\<close> key in its payload,
  \<open>rotateLayersInCurrentDocumentCommand\<close> logs an error and resolves: no event, no
  native call, no transfer.
\<close>

theorem rotate_missing_angle_is_noop:
  assumes "pl_angle pl = None"
  shows "rotateLayersInCurrentDocumentCommand e pl = ([LogError ''Missing angle''], Resolves)"
  using assms by (simp add: rotateLayersInCurrentDocumentCommand_def)

text \<open>
  The empty payload.
\<close>

theorem rotate_missing_angle_is_noop_witness:
  "rotateLayersInCurrentDocumentCommand acceptAll \<lparr>pl_angle = None\<rparr> =
     ([LogError ''Missing angle''], Resolves)"
  using rotate_missing_angle_is_noop [where pl = "\<lparr>pl_angle = None\<rparr>" and e = acceptAll]
  by simp

subsection \<open>Native calls issued\<close>

text \<open>
  Claim C6. When no layer is left after the group ends are filtered out,
  \<open>setSizeCommand\<close> dispatches \<open>RESIZE_DOCUMENT\<close> and issues one native call, the
  document resize to the given width and height, each replaced by the document's own
  when absent; no select and no layer resize is issued.
\<close>

theorem setSize_no_layers_resizes_document:
  assumes "\<forall>layer \<in> set layerSpec. l_kind layer = GROUPEND"
    and "resizeObj = DocumentResize
           (Pixels (case s_w sz of Some w \<Rightarrow> w | None \<Rightarrow> b_width (d_bounds document)))
           (Pixels (case s_h sz of Some h \<Rightarrow> h | None \<Rightarrow> b_height (d_bounds document)))"
  shows "fst (setSizeCommand ar e document layerSpec sz) =
           [Dispatch (RESIZE_DOCUMENT (d_id document) [] sz), Native (PlayObject resizeObj)] \<and>
         nativeCalls (fst (setSizeCommand ar e document layerSpec sz)) = [PlayObject resizeObj]"
proof -
  from assms(1) have "notGroupEnd layerSpec = []"
    by (simp add: notGroupEnd_def filter_empty_conv)
  then show ?thesis using assms(2)
    by (simp add: setSizeCommand_def playThen_def Let_def split: option.splits)
qed

text \<open>
  A lone group end with only a width, and no layer at all with only a height.
\<close>

theorem setSize_no_layers_resizes_document_witness:
  "nativeCalls (fst (setSizeCommand binary64 acceptAll sampleDocument [groupEnd] \<lparr>s_w = Some 10, s_h = None\<rparr>)) =
     [PlayObject (DocumentResize (Pixels 10) (Pixels 600))] \<and>
   nativeCalls (fst (setSizeCommand binary64 rejectAll sampleDocument [] \<lparr>s_w = None, s_h = Some 20\<rparr>)) =
     [PlayObject (DocumentResize (Pixels 800) (Pixels 20))]"
  using setSize_no_layers_resizes_document [where layerSpec = "[groupEnd]"
          and resizeObj = "DocumentResize (Pixels 10) (Pixels 600)"
          and sz = "\<lparr>s_w = Some 10, s_h = None\<rparr>" and document = sampleDocument
          and ar = binary64 and e = acceptAll]
        setSize_no_layers_resizes_document [where layerSpec = "[]"
          and resizeObj = "DocumentResize (Pixels 800) (Pixels 20)"
          and sz = "\<lparr>s_w = None, s_h = Some 20\<rparr>" and document = sampleDocument
          and ar = binary64 and e = rejectAll]
  by (simp add: groupEnd_def sampleDocument_def)

text \<open>
  Claim C7. When exactly one layer is left after the group ends are filtered out,
  \<open>setPositionCommand\<close> issues one native call: the translate play object addressed to
  that layer, by the host's difference between the new position and the layer's left and
  top, with no select before it and no select after it.
\<close>

theorem setPosition_single_layer_one_translate:
  assumes "filter (\<lambda>l. l_kind l \<noteq> GROUPEND) layerSpec = [layer]"
    and "childBounds = d_childBounds document layer"
    and "newX = (case p_x position of Some x \<Rightarrow> x | None \<Rightarrow> b_left childBounds)"
    and "newY = (case p_y position of Some y \<Rightarrow> y | None \<Rightarrow> b_top childBounds)"
  shows "nativeCalls (fst (setPositionCommand ar e document layerSpec position)) =
           [PlayObject (Translate [DocumentId (d_id document), LayerId (l_id layer)]
              (Pixels (n_sub ar newX (b_left childBounds)))
              (Pixels (n_sub ar newY (b_top childBounds))))]"
proof -
  from assms(1) have "notGroupEnd layerSpec = [layer]"
    by (simp add: notGroupEnd_def)
  then show ?thesis using assms(2-4)
    by (simp add: setPositionCommand_def playThen_def getTranslatePlayObject_def Let_def
          split: option.splits)
qed

text \<open>
  A layer with left \<open>-1\<close> between two group ends, moved to \<open>x = 2^53\<close>: the difference
  \<open>2^53 + 1\<close> is not a double and the call carries \<open>2^53\<close>.
\<close>

theorem setPosition_single_layer_one_translate_witness:
  "nativeCalls (fst (setPositionCommand binary64 acceptAll sampleDocument [groupEnd, layerH, groupEnd]
      \<lparr>p_x = Some 9007199254740992, p_y = None\<rparr>)) =
     [PlayObject (Translate [DocumentId 7, LayerId 14] (Pixels 9007199254740992) (Pixels 0))]"
proof -
  have f: "filter (\<lambda>l. l_kind l \<noteq> GROUPEND) [groupEnd, layerH, groupEnd] = [layerH]"
    by (simp add: groupEnd_def layerH_def)
  have h: "boxH = d_childBounds sampleDocument layerH"
    by (simp add: sampleDocument_def sampleBounds_def layerH_def)
  have x: "(9007199254740992::real) =
      (case p_x \<lparr>p_x = Some 9007199254740992, p_y = None\<rparr> of Some x \<Rightarrow> x | None \<Rightarrow> b_left boxH)"
    and y: "(0::real) =
      (case p_y \<lparr>p_x = Some 9007199254740992, p_y = None\<rparr> of Some y \<Rightarrow> y | None \<Rightarrow> b_top boxH)"
    by (simp_all add: boxH_def)
  show ?thesis
    unfolding setPosition_single_layer_one_translate [OF f h x y]
    by (simp add: boxH_def sampleDocument_def layerH_def binary64_def fl_eval)
qed

text \<open>
  Claim C8. \<open>setBoundsCommand\<close> issues one native call, the merge of a translate and a
  resize addressed to the current layer. The translation is the host's sum of the
  difference of the lefts (tops) and half the difference of the widths (heights); the
  target size is the new width and height. When the gateway accepts the call, the command
  transfers to \<open>resetLayers\<close> with the set of descendants of the selected layers.
\<close>

theorem setBounds_one_call_then_reset:
  assumes "layerRef = [DocumentId (d_id document), LayerCurrent]"
    and "xDelta = n_add ar (n_sub ar (b_left newBounds) (b_left oldBounds))
                    (n_div ar (n_sub ar (b_width newBounds) (b_width oldBounds)) (n_lit ar 2))"
    and "yDelta = n_add ar (n_sub ar (b_top newBounds) (b_top oldBounds))
                    (n_div ar (n_sub ar (b_height newBounds) (b_height oldBounds)) (n_lit ar 2))"
    and "call = PlayObject (Merge
           (Translate layerRef (Pixels xDelta) (Pixels yDelta))
           (SetSizeObj layerRef (Pixels (b_width newBounds)) (Pixels (b_height newBounds))))"
  shows "nativeCalls (fst (setBoundsCommand ar e document oldBounds newBounds)) = [call] \<and>
         (gateway e call = None \<longrightarrow>
            fst (setBoundsCommand ar e document oldBounds newBounds) =
              [Native call,
               Transfer (ResetLayers document
                 (LayerSet (\<Union>layer \<in> set (d_selected document). set (d_descendants document layer))))])"
  using assms
  by (simp add: setBoundsCommand_def playThen_def descendantsSet_def Let_def split: option.splits)

text \<open>
  From the empty box at the origin to a box with left \<open>0.1\<close> and width \<open>0.4\<close>: the
  horizontal translation is the double \<open>0.30000000000000004\<close>.
\<close>

theorem setBounds_one_call_then_reset_witness:
  "fst (setBoundsCommand binary64 acceptAll sampleDocument boxOld boxNew) =
     [Native (PlayObject (Merge
        (Translate [DocumentId 7, LayerCurrent]
           (Pixels (1351079888211149 / 4503599627370496)) (Pixels 0))
        (SetSizeObj [DocumentId 7, LayerCurrent]
           (Pixels (3602879701896397 / 9007199254740992)) (Pixels 0)))),
      Transfer (ResetLayers sampleDocument (LayerSet {layerA}))]"
proof -
  have r: "[DocumentId 7, LayerCurrent] = [DocumentId (d_id sampleDocument), LayerCurrent]"
    by (simp add: sampleDocument_def)
  have x: "(1351079888211149 / 4503599627370496 :: real) =
      n_add binary64 (n_sub binary64 (b_left boxNew) (b_left boxOld))
        (n_div binary64 (n_sub binary64 (b_width boxNew) (b_width boxOld)) (n_lit binary64 2))"
    by (simp add: binary64_def boxOld_def boxNew_def fl_eval)
  have y: "(0::real) =
      n_add binary64 (n_sub binary64 (b_top boxNew) (b_top boxOld))
        (n_div binary64 (n_sub binary64 (b_height boxNew) (b_height boxOld)) (n_lit binary64 2))"
    by (simp add: binary64_def boxOld_def boxNew_def fl_eval)
  have c: "PlayObject (Merge
        (Translate [DocumentId 7, LayerCurrent]
           (Pixels (1351079888211149 / 4503599627370496)) (Pixels 0))
        (SetSizeObj [DocumentId 7, LayerCurrent]
           (Pixels (3602879701896397 / 9007199254740992)) (Pixels 0))) =
      PlayObject (Merge
        (Translate [DocumentId 7, LayerCurrent]
           (Pixels (1351079888211149 / 4503599627370496)) (Pixels 0))
        (SetSizeObj [DocumentId 7, LayerCurrent]
           (Pixels (b_width boxNew)) (Pixels (b_height boxNew))))"
    by (simp add: boxNew_def)
  have ok: "gateway acceptAll call = None" for call
    by (simp add: acceptAll_def)
  from setBounds_one_call_then_reset [where e = acceptAll, OF r x y c] ok show ?thesis
    by (simp add: sampleDocument_def)
qed

subsection \<open>Lock declarations\<close>

text \<open>
  Claim C10. Every exported action writes exactly \<open>PS_DOC\<close> and \<open>JS_DOC\<close> and reads
  what it writes; the four \<open>*CurrentDocument\<close> actions read \<open>JS_APP\<close> as well.
\<close>

theorem exported_lock_sets:
  "\<forall>a \<in> set exports.
     set (writes a) = {PS_DOC, JS_DOC} \<and> set (writes a) \<subseteq> set (reads a) \<and>
     set (reads a) =
       (if command a \<in> {FlipXCurrentDocumentCommand, FlipYCurrentDocumentCommand,
                         SwapLayersCurrentDocumentCommand, RotateLayersInCurrentDocumentCommand}
        then {PS_DOC, JS_DOC, JS_APP} else {PS_DOC, JS_DOC})"
  by (simp add: exports_def setPosition_def setSize_def setBounds_def flipX_def flipY_def
        flipXCurrentDocument_def flipYCurrentDocument_def swapLayers_def
        swapLayersCurrentDocument_def setRadius_def rotate_action_def
        rotateLayersInCurrentDocument_def)

text \<open>
  The last export.
\<close>

theorem exported_lock_sets_witness:
  "set (writes rotateLayersInCurrentDocument) = {PS_DOC, JS_DOC} \<and>
   set (writes rotateLayersInCurrentDocument) \<subseteq> set (reads rotateLayersInCurrentDocument) \<and>
   set (reads rotateLayersInCurrentDocument) = {PS_DOC, JS_DOC, JS_APP}"
proof -
  have "rotateLayersInCurrentDocument \<in> set exports"
    by (simp add: exports_def)
  from exported_lock_sets [rule_format, OF this] show ?thesis
    by (simp add: rotateLayersInCurrentDocument_def)
qed

end
